theory Spec2Isabelle
  imports Complex_Main "HOL-Library.Multiset"
begin

section \<open>Numeric values of the notebook\<close>

text \<open>
  The notebook \<open>6_Policy_Learning_1.py\<close> computes with numpy/pandas double precision
  numbers. They are modelled by exact real numbers extended with the three special values
  that the notebook's operations can produce: the two infinities (a non-zero number
  divided by zero) and NaN (the mean or variance of an empty selection, zero divided by
  zero, infinity times zero). A zero divisor is the positive zero that a subtraction of
  equal numbers yields. Input data (outcomes, residuals, effect predictions, costs) is
  finite, so inputs are real numbers and only results are extended values.

  The operations below are the exact ones: they do not round. Where a property depends on
  the rounding of doubles, the estimator is modelled a second time with every operation
  followed by a rounding function (the definitions with the suffix \<open>_fl\<close>); the exact
  operations are the case in which the rounding function is the identity.
\<close>

datatype npfloat = Fin real | PInf | NInf | NaN

fun fadd :: "npfloat \<Rightarrow> npfloat \<Rightarrow> npfloat" where
  "fadd NaN _ = NaN"
| "fadd _ NaN = NaN"
| "fadd (Fin x) (Fin y) = Fin (x + y)"
| "fadd PInf NInf = NaN"
| "fadd NInf PInf = NaN"
| "fadd PInf _ = PInf"
| "fadd NInf _ = NInf"
| "fadd (Fin x) PInf = PInf"
| "fadd (Fin x) NInf = NInf"

text \<open>The sign of an infinite product follows the signs of the factors; a zero factor
  against an infinity gives NaN.\<close>

definition inf_of_sign :: "bool \<Rightarrow> npfloat" where
  "inf_of_sign positive = (if positive then PInf else NInf)"

fun fmul :: "npfloat \<Rightarrow> npfloat \<Rightarrow> npfloat" where
  "fmul NaN _ = NaN"
| "fmul _ NaN = NaN"
| "fmul (Fin x) (Fin y) = Fin (x * y)"
| "fmul (Fin x) PInf = (if x = 0 then NaN else inf_of_sign (0 < x))"
| "fmul (Fin x) NInf = (if x = 0 then NaN else inf_of_sign (x < 0))"
| "fmul PInf (Fin y) = (if y = 0 then NaN else inf_of_sign (0 < y))"
| "fmul NInf (Fin y) = (if y = 0 then NaN else inf_of_sign (y < 0))"
| "fmul PInf PInf = PInf"
| "fmul NInf NInf = PInf"
| "fmul PInf NInf = NInf"
| "fmul NInf PInf = NInf"

fun fdiv :: "npfloat \<Rightarrow> npfloat \<Rightarrow> npfloat" where
  "fdiv NaN _ = NaN"
| "fdiv _ NaN = NaN"
| "fdiv (Fin x) (Fin y) =
     (if y \<noteq> 0 then Fin (x / y) else if x = 0 then NaN else inf_of_sign (0 < x))"
| "fdiv (Fin x) PInf = Fin 0"
| "fdiv (Fin x) NInf = Fin 0"
| "fdiv PInf (Fin y) = inf_of_sign (0 \<le> y)"
| "fdiv NInf (Fin y) = inf_of_sign (y < 0)"
| "fdiv PInf _ = NaN"
| "fdiv NInf _ = NaN"

fun fsqrt :: "npfloat \<Rightarrow> npfloat" where
  "fsqrt (Fin x) = (if x < 0 then NaN else Fin (sqrt x))"
| "fsqrt PInf = PInf"
| "fsqrt NInf = NaN"
| "fsqrt NaN = NaN"

text \<open>\<open>np.mean\<close> and \<open>np.var\<close> (population variance, \<open>ddof = 0\<close>) of a
  sequence of finite numbers; both are NaN on an empty sequence.\<close>

definition np_mean :: "real list \<Rightarrow> npfloat" where
  "np_mean xs = (if xs = [] then NaN else Fin (sum_list xs / real (length xs)))"

definition np_var :: "real list \<Rightarrow> npfloat" where
  "np_var xs =
     (if xs = [] then NaN
      else let m = sum_list xs / real (length xs)
           in Fin (sum_list (map (\<lambda>x. (x - m)\<^sup>2) xs) / real (length xs)))"

text \<open>\<open>np.sum\<close> of a boolean vector counts its true entries; \<open>np.mean\<close> of a
  boolean vector is the fraction of true entries.\<close>

definition np_sum_bool :: "bool list \<Rightarrow> nat" where
  "np_sum_bool m = length (filter (\<lambda>b. b) m)"

definition np_mean_bool :: "bool list \<Rightarrow> npfloat" where
  "np_mean_bool m = np_mean (map of_bool m)"

definition logical_not :: "bool list \<Rightarrow> bool list" where
  "logical_not m = map Not m"

text \<open>Selection of the entries of a vector at which a boolean mask of the same length
  is true (\<open>y_eval[c_1]\<close>, \<open>y_eval_main.loc[y_eval_main['c_1'] == True]['y']\<close>).\<close>

definition select_mask :: "'a list \<Rightarrow> bool list \<Rightarrow> 'a list" where
  "select_mask ys m = map fst (filter snd (zip ys m))"

section \<open>The sample-mean value estimator \<open>extr_val_sd\<close>\<close>

text \<open>
  \<^verbatim>\<open>
  def extr_val_sd(y_eval, w_eval, a, cost = 0):
      c_1 = a & (w_eval == 1)
      c_0 = np.logical_not(a) & (w_eval == 0)
      ...
      y_0 = y_eval_main.loc[y_eval_main['c_0'] == True]['y']
      y_1 = y_eval_main.loc[y_eval_main['c_1'] == True]['y']
      mean_1 = np.mean(y_1 - cost) * np.mean(a)
      mean_0 = np.mean(y_0) * np.mean(np.logical_not(a))
      val_est = mean_1 + mean_0
      var_1 = np.var(y_eval[c_1]) / np.sum(c_1) * np.mean(a)**2
      var_0 = np.var(y_eval[c_0]) / np.sum(c_0) * np.mean(np.logical_not(a))**2
      var_sqr = np.sqrt(var_1 + var_0)
      return val_est, var_sqr
  \<close>
  The outcome vector, the treatment vector and the policy vector are positional vectors
  of one length (the outcome series carries the column name \<open>y\<close>, as at every call of the
  notebook); elementwise operations on vectors of different lengths raise.
\<close>

datatype error = ValueError

definition c_1 :: "int list \<Rightarrow> bool list \<Rightarrow> bool list" where
  "c_1 w_eval a = map2 (\<lambda>p v. p \<and> v = 1) a w_eval"

definition c_0 :: "int list \<Rightarrow> bool list \<Rightarrow> bool list" where
  "c_0 w_eval a = map2 (\<lambda>p v. p \<and> v = 0) (logical_not a) w_eval"

definition mean_1 :: "real list \<Rightarrow> int list \<Rightarrow> bool list \<Rightarrow> real \<Rightarrow> npfloat" where
  "mean_1 y_eval w_eval a cost =
     (let y_1 = select_mask y_eval (c_1 w_eval a)
      in fmul (np_mean (map (\<lambda>v. v - cost) y_1)) (np_mean_bool a))"

definition mean_0 :: "real list \<Rightarrow> int list \<Rightarrow> bool list \<Rightarrow> npfloat" where
  "mean_0 y_eval w_eval a =
     (let y_0 = select_mask y_eval (c_0 w_eval a)
      in fmul (np_mean y_0) (np_mean_bool (logical_not a)))"

definition var_1 :: "real list \<Rightarrow> int list \<Rightarrow> bool list \<Rightarrow> npfloat" where
  "var_1 y_eval w_eval a =
     fmul (fdiv (np_var (select_mask y_eval (c_1 w_eval a)))
                (Fin (real (np_sum_bool (c_1 w_eval a)))))
          (fmul (np_mean_bool a) (np_mean_bool a))"

definition var_0 :: "real list \<Rightarrow> int list \<Rightarrow> bool list \<Rightarrow> npfloat" where
  "var_0 y_eval w_eval a =
     fmul (fdiv (np_var (select_mask y_eval (c_0 w_eval a)))
                (Fin (real (np_sum_bool (c_0 w_eval a)))))
          (fmul (np_mean_bool (logical_not a)) (np_mean_bool (logical_not a)))"

definition extr_val_sd ::
  "real list \<Rightarrow> int list \<Rightarrow> bool list \<Rightarrow> real \<Rightarrow> error + (npfloat \<times> npfloat)" where
  "extr_val_sd y_eval w_eval a cost =
     (if length a = length w_eval \<and> length y_eval = length w_eval
      then
        let val_est = fadd (mean_1 y_eval w_eval a cost) (mean_0 y_eval w_eval a);
            var_sqr = fsqrt (fadd (var_1 y_eval w_eval a) (var_0 y_eval w_eval a))
        in Inr (val_est, var_sqr)
      else Inl ValueError)"

text \<open>The outcomes of the treated units of an evaluation set, for stating what the
  estimator is compared with.\<close>

definition treated_outcomes :: "real list \<Rightarrow> int list \<Rightarrow> real list" where
  "treated_outcomes y_eval w_eval = select_mask y_eval (map (\<lambda>v. v = 1) w_eval)"

section \<open>The value estimator in double arithmetic\<close>

text \<open>
  A double has a significand of 53 bits: between a power of two \<open>b\<close> and \<open>2 * b\<close>
  the doubles are the multiples of \<open>b / 2 ^ 52\<close>, and an operation returns the double
  nearest to its exact result, the one with the even significand when two are equally
  near. \<open>binade\<close> searches the power of two at or below a positive number, starting
  from 1; its first argument bounds the search beyond the exponents of doubles.
  Overflow to infinity and the subnormal numbers are not modelled.
\<close>

definition round_half_even :: "real \<Rightarrow> int" where
  "round_half_even x =
     (let f = \<lfloor>x\<rfloor>; d = x - of_int f
      in if d < 1 / 2 then f else if 1 / 2 < d then f + 1 else if even f then f else f + 1)"

fun binade :: "nat \<Rightarrow> real \<Rightarrow> real \<Rightarrow> real" where
  "binade 0 b m = b"
| "binade (Suc k) b m =
     (if 2 * b \<le> m then binade k (2 * b) m
      else if m < b then binade k (b / 2) m
      else b)"

definition round_double :: "real \<Rightarrow> real" where
  "round_double x =
     (if x = 0 then 0
      else let q = binade 1100 1 \<bar>x\<bar> / 2 ^ 52
           in of_int (round_half_even (x / q)) * q)"

text \<open>
  The estimator with a rounding function \<open>rnd\<close> after every operation of lines 192 to
  198. A sum adds the entries one after the other, as numpy and pandas do for the short
  vectors evaluated here; the mean is the sum divided by the count; the variance is the
  mean of the squared differences from the mean (\<open>ddof = 0\<close>), each difference and each
  square rounded.
\<close>

definition frnd :: "(real \<Rightarrow> real) \<Rightarrow> npfloat \<Rightarrow> npfloat" where
  "frnd rnd v = (case v of Fin x \<Rightarrow> Fin (rnd x) | _ \<Rightarrow> v)"

definition fl_sum :: "(real \<Rightarrow> real) \<Rightarrow> real list \<Rightarrow> real" where
  "fl_sum rnd xs = foldl (\<lambda>s x. rnd (s + x)) 0 xs"

definition np_mean_fl :: "(real \<Rightarrow> real) \<Rightarrow> real list \<Rightarrow> npfloat" where
  "np_mean_fl rnd xs =
     (if xs = [] then NaN else Fin (rnd (fl_sum rnd xs / real (length xs))))"

definition np_var_fl :: "(real \<Rightarrow> real) \<Rightarrow> real list \<Rightarrow> npfloat" where
  "np_var_fl rnd xs =
     (if xs = [] then NaN
      else let avg = rnd (fl_sum rnd xs / real (length xs));
               sqr = map (\<lambda>x. rnd ((rnd (avg - x))\<^sup>2)) xs
           in Fin (rnd (fl_sum rnd sqr / real (length xs))))"

definition np_mean_bool_fl :: "(real \<Rightarrow> real) \<Rightarrow> bool list \<Rightarrow> npfloat" where
  "np_mean_bool_fl rnd m = np_mean_fl rnd (map of_bool m)"

definition mean_1_fl ::
  "(real \<Rightarrow> real) \<Rightarrow> real list \<Rightarrow> int list \<Rightarrow> bool list \<Rightarrow> real \<Rightarrow> npfloat" where
  "mean_1_fl rnd y_eval w_eval a cost =
     (let y_1 = select_mask y_eval (c_1 w_eval a)
      in frnd rnd (fmul (np_mean_fl rnd (map (\<lambda>v. rnd (v - cost)) y_1))
                        (np_mean_bool_fl rnd a)))"

definition mean_0_fl ::
  "(real \<Rightarrow> real) \<Rightarrow> real list \<Rightarrow> int list \<Rightarrow> bool list \<Rightarrow> npfloat" where
  "mean_0_fl rnd y_eval w_eval a =
     (let y_0 = select_mask y_eval (c_0 w_eval a)
      in frnd rnd (fmul (np_mean_fl rnd y_0) (np_mean_bool_fl rnd (logical_not a))))"

definition var_1_fl ::
  "(real \<Rightarrow> real) \<Rightarrow> real list \<Rightarrow> int list \<Rightarrow> bool list \<Rightarrow> npfloat" where
  "var_1_fl rnd y_eval w_eval a =
     frnd rnd
       (fmul (frnd rnd (fdiv (np_var_fl rnd (select_mask y_eval (c_1 w_eval a)))
                             (Fin (real (np_sum_bool (c_1 w_eval a))))))
             (frnd rnd (fmul (np_mean_bool_fl rnd a) (np_mean_bool_fl rnd a))))"

definition var_0_fl ::
  "(real \<Rightarrow> real) \<Rightarrow> real list \<Rightarrow> int list \<Rightarrow> bool list \<Rightarrow> npfloat" where
  "var_0_fl rnd y_eval w_eval a =
     frnd rnd
       (fmul (frnd rnd (fdiv (np_var_fl rnd (select_mask y_eval (c_0 w_eval a)))
                             (Fin (real (np_sum_bool (c_0 w_eval a))))))
             (frnd rnd (fmul (np_mean_bool_fl rnd (logical_not a))
                             (np_mean_bool_fl rnd (logical_not a)))))"

definition val_est_fl ::
  "(real \<Rightarrow> real) \<Rightarrow> real list \<Rightarrow> int list \<Rightarrow> bool list \<Rightarrow> real \<Rightarrow> npfloat" where
  "val_est_fl rnd y_eval w_eval a cost =
     frnd rnd (fadd (mean_1_fl rnd y_eval w_eval a cost) (mean_0_fl rnd y_eval w_eval a))"

definition var_sqr_fl ::
  "(real \<Rightarrow> real) \<Rightarrow> real list \<Rightarrow> int list \<Rightarrow> bool list \<Rightarrow> npfloat" where
  "var_sqr_fl rnd y_eval w_eval a =
     frnd rnd (fsqrt (frnd rnd (fadd (var_1_fl rnd y_eval w_eval a)
                                     (var_0_fl rnd y_eval w_eval a))))"

definition extr_val_sd_fl ::
  "(real \<Rightarrow> real) \<Rightarrow> real list \<Rightarrow> int list \<Rightarrow> bool list \<Rightarrow> real
     \<Rightarrow> error + (npfloat \<times> npfloat)" where
  "extr_val_sd_fl rnd y_eval w_eval a cost =
     (if length a = length w_eval \<and> length y_eval = length w_eval
      then Inr (val_est_fl rnd y_eval w_eval a cost, var_sqr_fl rnd y_eval w_eval a)
      else Inl ValueError)"

section \<open>The AIPW value estimate\<close>

text \<open>
  Cells 7, 11 and 23 combine the two score vectors with the policy vector and average:
  \<^verbatim>\<open>
  gamma_hat_pi = pi_hat * gamma_hat_1 + (1 - pi_hat) * gamma_hat_0
  ve = np.mean(gamma_hat_pi)
  std = np.std(gamma_hat_pi) / np.sqrt(len(gamma_hat_pi))
  \<close>
  A boolean policy entry counts as 0 or 1. The scores combined here are finite numbers.
\<close>

definition gamma_hat_pi :: "bool list \<Rightarrow> real list \<Rightarrow> real list \<Rightarrow> error + real list" where
  "gamma_hat_pi pi_hat gamma_hat_1 gamma_hat_0 =
     (if length pi_hat = length gamma_hat_1 \<and> length gamma_hat_1 = length gamma_hat_0
      then Inr (map2 (\<lambda>p (g1, g0). of_bool p * g1 + (1 - of_bool p) * g0)
                  pi_hat (zip gamma_hat_1 gamma_hat_0))
      else Inl ValueError)"

definition np_std :: "real list \<Rightarrow> npfloat" where
  "np_std xs = fsqrt (np_var xs)"

definition value_and_stderr :: "real list \<Rightarrow> npfloat \<times> npfloat" where
  "value_and_stderr g = (np_mean g, fdiv (np_std g) (fsqrt (Fin (real (length g)))))"

definition aipw_value ::
  "bool list \<Rightarrow> real list \<Rightarrow> real list \<Rightarrow> error + (npfloat \<times> npfloat)" where
  "aipw_value pi_hat gamma_hat_1 gamma_hat_0 =
     (case gamma_hat_pi pi_hat gamma_hat_1 gamma_hat_0 of
        Inl e \<Rightarrow> Inl e
      | Inr g \<Rightarrow> Inr (value_and_stderr g))"

text \<open>
  Cell 18 evaluates the policy tree of cell 14 on the second half of the rows:
  \<^verbatim>\<open>
  gamma_hat_pi = pi_hat + gamma_hat_1.iloc[int(n/2):] + (1 - pi_hat) * gamma_hat_0.iloc[int(n/2) : ]
  val_st, val_sderr = np.mean(gamma_hat_pi), np.std(gamma_hat_pi) / np.sqrt(len(gamma_hat_pi))
  \<close>
  The arguments below are the policy vector and the two sliced score vectors.
\<close>

definition gamma_hat_pi_18 :: "bool list \<Rightarrow> real list \<Rightarrow> real list \<Rightarrow> error + real list" where
  "gamma_hat_pi_18 pi_hat gamma_hat_1 gamma_hat_0 =
     (if length pi_hat = length gamma_hat_1 \<and> length gamma_hat_1 = length gamma_hat_0
      then Inr (map2 (\<lambda>p (g1, g0). of_bool p + g1 + (1 - of_bool p) * g0)
                  pi_hat (zip gamma_hat_1 gamma_hat_0))
      else Inl ValueError)"

definition aipw_value_18 ::
  "bool list \<Rightarrow> real list \<Rightarrow> real list \<Rightarrow> error + (npfloat \<times> npfloat)" where
  "aipw_value_18 pi_hat gamma_hat_1 gamma_hat_0 =
     (case gamma_hat_pi_18 pi_hat gamma_hat_1 gamma_hat_0 of
        Inl e \<Rightarrow> Inl e
      | Inr g \<Rightarrow> Inr (value_and_stderr g))"

section \<open>The doubly-robust score calculator\<close>

text \<open>
  \<^verbatim>\<open>
  def double_robust_score(forest_model, y, w, x):
      residuals = forest_model.residuals_
      tau_hat = forest_model.effect(x)
      e_hat = w - residuals[1]
      y_hat = y - residuals[0]
      mu_hat_1 = y_hat + (1 - e_hat) * tau_hat
      mu_hat_0 = y_hat - e_hat * tau_hat
      gamma_hat_1 = mu_hat_1  + w / e_hat * (y - mu_hat_1)
      gamma_hat_0 = mu_hat_0 + (1 - w) / (1 - e_hat) * (y - mu_hat_0)
      return gamma_hat_1, gamma_hat_0
  \<close>
  The forest is a fitted model of the econml library. What the calculator reads from it
  are the cached residuals (outcome residuals first, treatment residuals second) and the
  effect predictions \<open>forest_model.effect(x)\<close>; both are inputs of the model. All
  operations are elementwise; the record below holds the values of one unit.
\<close>

record unit_data =
  res_y :: real
  res_w :: real
  tau :: real
  y_obs :: real
  w_obs :: int

definition e_hat :: "unit_data \<Rightarrow> real" where
  "e_hat u = real_of_int (w_obs u) - res_w u"

definition y_hat :: "unit_data \<Rightarrow> real" where
  "y_hat u = y_obs u - res_y u"

definition mu_hat_1 :: "unit_data \<Rightarrow> real" where
  "mu_hat_1 u = y_hat u + (1 - e_hat u) * tau u"

definition mu_hat_0 :: "unit_data \<Rightarrow> real" where
  "mu_hat_0 u = y_hat u - e_hat u * tau u"

definition gamma_hat_1 :: "unit_data \<Rightarrow> npfloat" where
  "gamma_hat_1 u =
     fadd (Fin (mu_hat_1 u))
          (fmul (fdiv (Fin (real_of_int (w_obs u))) (Fin (e_hat u))) (Fin (y_obs u - mu_hat_1 u)))"

definition gamma_hat_0 :: "unit_data \<Rightarrow> npfloat" where
  "gamma_hat_0 u =
     fadd (Fin (mu_hat_0 u))
          (fmul (fdiv (Fin (1 - real_of_int (w_obs u))) (Fin (1 - e_hat u)))
                (Fin (y_obs u - mu_hat_0 u)))"

text \<open>The two scores as real numbers, for a unit whose divisors are not zero.\<close>

definition aipw_1 :: "unit_data \<Rightarrow> real" where
  "aipw_1 u = mu_hat_1 u + real_of_int (w_obs u) / e_hat u * (y_obs u - mu_hat_1 u)"

definition aipw_0 :: "unit_data \<Rightarrow> real" where
  "aipw_0 u = mu_hat_0 u + (1 - real_of_int (w_obs u)) / (1 - e_hat u) * (y_obs u - mu_hat_0 u)"

definition units :: "real list \<times> real list \<Rightarrow> real list \<Rightarrow> real list \<Rightarrow> int list \<Rightarrow> unit_data list" where
  "units residuals tau_hat y w =
     map (\<lambda>i. \<lparr>res_y = fst residuals ! i, res_w = snd residuals ! i, tau = tau_hat ! i,
                y_obs = y ! i, w_obs = w ! i\<rparr>) [0..<length y]"

definition double_robust_score ::
  "real list \<times> real list \<Rightarrow> real list \<Rightarrow> real list \<Rightarrow> int list
     \<Rightarrow> error + (npfloat list \<times> npfloat list)" where
  "double_robust_score residuals tau_hat y w =
     (if length (fst residuals) = length y \<and> length (snd residuals) = length y
         \<and> length tau_hat = length y \<and> length w = length y
      then let us = units residuals tau_hat y w
           in Inr (map gamma_hat_1 us, map gamma_hat_0 us)
      else Inl ValueError)"

section \<open>Rankings and cost curves\<close>

text \<open>
  \<^verbatim>\<open>
  rank_ignore_cost = (-tau_hat).argsort()
  rank_ratio = (-gamm_hat).argsort()
  ipw['rank_iv'] = (-rho_iv).argsort()
  \<close>
  \<open>argsort\<close> returns the positions of a vector in ascending order of their entries.
  For the short vectors sorted by insertion numpy's default sort keeps equal entries in
  their original order, as the stable sort used here does; for pairwise different entries
  the result does not depend on the sorting algorithm.
\<close>

definition argsort :: "'a::linorder list \<Rightarrow> nat list" where
  "argsort xs = sort_key (\<lambda>i. xs ! i) [0..<length xs]"

definition rank_ignore_cost :: "real list \<Rightarrow> nat list" where
  "rank_ignore_cost tau_hat = argsort (map uminus tau_hat)"

definition rank_ratio :: "real list \<Rightarrow> nat list" where
  "rank_ratio gamm_hat = argsort (map uminus gamm_hat)"

definition rank_iv :: "real list \<Rightarrow> nat list" where
  "rank_iv rho_iv = argsort (map uminus rho_iv)"

text \<open>The ratio of the benefit estimate to the cost estimate, unit by unit, that the
  prose of the notebook calls \<open>rho_hat(x) = tau_hat(x) / gamma_hat(x)\<close>; the notebook
  never computes it.\<close>

definition benefit_cost_ratio :: "real list \<Rightarrow> real list \<Rightarrow> real list" where
  "benefit_cost_ratio tau_hat gamm_hat = map2 (/) tau_hat gamm_hat"

text \<open>
  \<^verbatim>\<open>
  ipw['rank_ignore_cost'] = rank_ignore_cost
  treatment_value_ignore_cost =
      np.cumsum(ipw.sort_values("rank_ignore_cost")['treatment_ipw']) / np.sum(ipw['treatment_ipw'])
  \<close>
  and likewise for the cost column and for the other two rankings. \<open>sort_values\<close>
  orders the rows of the frame by the entries of the ranking column; a column of a
  different length than the frame cannot be assigned.
\<close>

fun cumsum_from :: "real \<Rightarrow> real list \<Rightarrow> real list" where
  "cumsum_from acc [] = []"
| "cumsum_from acc (x # xs) = (acc + x) # cumsum_from (acc + x) xs"

definition cumsum :: "real list \<Rightarrow> real list" where
  "cumsum xs = cumsum_from 0 xs"

definition sort_values_rows :: "nat list \<Rightarrow> nat list" where
  "sort_values_rows rank_column = argsort rank_column"

definition cost_curve :: "nat list \<Rightarrow> real list \<Rightarrow> error + npfloat list" where
  "cost_curve rank_column ipw_column =
     (if length rank_column = length ipw_column
      then Inr (map (\<lambda>c. fdiv (Fin c) (Fin (sum_list ipw_column)))
                  (cumsum (map (nth ipw_column) (sort_values_rows rank_column))))
      else Inl ValueError)"

definition treatment_value_ignore_cost :: "real list \<Rightarrow> real list \<Rightarrow> error + npfloat list" where
  "treatment_value_ignore_cost treatment_ipw tau_hat =
     cost_curve (rank_ignore_cost tau_hat) treatment_ipw"

definition treatment_cost_ignore_cost :: "real list \<Rightarrow> real list \<Rightarrow> error + npfloat list" where
  "treatment_cost_ignore_cost cost_ipw tau_hat =
     cost_curve (rank_ignore_cost tau_hat) cost_ipw"

section \<open>Rows used for fitting and for evaluation\<close>










section \<open>Properties of the arithmetic\<close>

lemma fmul_NaN_right [simp]: "fmul x NaN = NaN" by (cases x) simp_all
lemma fadd_NaN_right [simp]: "fadd x NaN = NaN" by (cases x) simp_all
lemma fdiv_NaN_right [simp]: "fdiv x NaN = NaN" by (cases x) simp_all

lemma select_mask_Nil_iff:
  "length ys = length m \<Longrightarrow> select_mask ys m = [] \<longleftrightarrow> (\<forall>i<length m. \<not> m ! i)"
  by (induction ys m rule: list_induct2) (auto simp: select_mask_def less_Suc_eq_0_disj)

lemma length_c_1: "length a = length w \<Longrightarrow> length (c_1 w a) = length w"
  by (simp add: c_1_def)
lemma length_c_0: "length a = length w \<Longrightarrow> length (c_0 w a) = length w"
  by (simp add: c_0_def logical_not_def)
lemma nth_c_1: "length a = length w \<Longrightarrow> i < length w \<Longrightarrow> c_1 w a ! i = (a ! i \<and> w ! i = 1)"
  by (simp add: c_1_def)
lemma nth_c_0: "length a = length w \<Longrightarrow> i < length w \<Longrightarrow> c_0 w a ! i = (\<not> a ! i \<and> w ! i = 0)"
  by (simp add: c_0_def logical_not_def)

lemma y_1_Nil_iff:
  "length a = length w \<Longrightarrow> length y = length w \<Longrightarrow>
   select_mask y (c_1 w a) = [] \<longleftrightarrow> (\<forall>i<length w. \<not> (a ! i \<and> w ! i = 1))"
  by (simp add: select_mask_Nil_iff length_c_1 nth_c_1)

lemma y_0_Nil_iff:
  "length a = length w \<Longrightarrow> length y = length w \<Longrightarrow>
   select_mask y (c_0 w a) = [] \<longleftrightarrow> (\<forall>i<length w. \<not> (\<not> a ! i \<and> w ! i = 0))"
  by (simp add: select_mask_Nil_iff length_c_0 nth_c_0)

lemma empty_1_NaN:
  assumes "select_mask y (c_1 w a) = []"
  shows "mean_1 y w a cost = NaN" "var_1 y w a = NaN"
  using assms by (simp_all add: mean_1_def var_1_def np_mean_def np_var_def)

lemma empty_0_NaN:
  assumes "select_mask y (c_0 w a) = []"
  shows "mean_0 y w a = NaN" "var_0 y w a = NaN"
  using assms by (simp_all add: mean_0_def var_0_def np_mean_def np_var_def)

lemma extr_val_sd_NaN:
  assumes "length a = length w" "length y = length w"
    and "select_mask y (c_1 w a) = [] \<or> select_mask y (c_0 w a) = []"
  shows "extr_val_sd y w a cost = Inr (NaN, NaN)"
  using assms by (auto simp: extr_val_sd_def empty_1_NaN empty_0_NaN)

lemma sum_list_shift:
  "sum_list (map (\<lambda>v. v - c) xs) = sum_list xs - c * real (length xs)"
  by (induction xs) (simp_all add: algebra_simps)

lemma np_mean_shift:
  "xs \<noteq> [] \<Longrightarrow> np_mean (map (\<lambda>v. v - c) xs) = Fin (sum_list xs / real (length xs) - c)"
  by (simp add: np_mean_def sum_list_shift diff_divide_distrib)

lemma np_mean_bool_Fin:
  "m \<noteq> [] \<Longrightarrow> np_mean_bool m = Fin (real (np_sum_bool m) / real (length m))"
proof -
  have "sum_list (map of_bool m) = real (length (filter (\<lambda>b. b) m))" for m
    by (induction m) simp_all
  then show "m \<noteq> [] \<Longrightarrow> ?thesis"
    by (simp add: np_mean_bool_def np_mean_def np_sum_bool_def)
qed

lemma select_mask_nonempty_args:
  "select_mask ys m \<noteq> [] \<Longrightarrow> ys \<noteq> [] \<and> m \<noteq> []"
  by (auto simp: select_mask_def)

lemma mean_1_Fin:
  assumes "select_mask y (c_1 w a) \<noteq> []" and "a \<noteq> []"
  shows "mean_1 y w a cost
     = Fin ((sum_list (select_mask y (c_1 w a)) / real (length (select_mask y (c_1 w a))) - cost)
            * (real (np_sum_bool a) / real (length a)))"
  using assms by (simp add: mean_1_def np_mean_shift np_mean_bool_Fin)

lemma mean_0_Fin:
  assumes "select_mask y (c_0 w a) \<noteq> []" and "a \<noteq> []"
  shows "\<exists>m. mean_0 y w a = Fin m"
  using assms by (simp add: mean_0_def np_mean_def np_mean_bool_Fin logical_not_def Let_def)

lemma c_0_all_True: "c_0 w (replicate (length w) True) = replicate (length w) False"
  by (simp add: c_0_def logical_not_def map_replicate_const zip_replicate1 list_eq_iff_nth_eq)

lemma c_1_all_True: "c_1 w (replicate (length w) True) = map (\<lambda>v. v = 1) w"
  by (simp add: c_1_def list_eq_iff_nth_eq)

lemma select_mask_all_False: "select_mask ys (replicate n False) = []"
  by (auto simp: select_mask_def filter_empty_conv set_zip)

lemmas extr_val_sd_unfold =
  extr_val_sd_def mean_1_def mean_0_def var_1_def var_0_def c_1_def c_0_def logical_not_def
  select_mask_def np_mean_def np_var_def np_mean_bool_def np_sum_bool_def

section \<open>Properties of \<open>extr_val_sd\<close>\<close>

text \<open>
  Claim C5. When the policy vector leaves one stratum of the evaluation set empty (no unit
  with \<open>a\<close> true and \<open>w = 1\<close>, or no unit with \<open>a\<close> false and \<open>w = 0\<close>), the call
  neither raises nor returns finite numbers: both the value estimate and the standard
  error are NaN, whatever the cost.
\<close>

theorem extr_val_sd_empty_stratum:
  assumes "length a = length w_eval" and "length y_eval = length w_eval"
    and "(\<forall>i<length w_eval. \<not> (a ! i \<and> w_eval ! i = 1))
       \<or> (\<forall>i<length w_eval. \<not> (\<not> a ! i \<and> w_eval ! i = 0))"
  shows "extr_val_sd y_eval w_eval a cost = Inr (NaN, NaN)"
  using assms extr_val_sd_NaN [of a w_eval y_eval cost]
  by (simp only: y_1_Nil_iff [OF assms(1,2)] y_0_Nil_iff [OF assms(1,2)])

theorem extr_val_sd_empty_stratum_witness:
  "extr_val_sd [2, 3, 7] [0, 0, 1] [True, False, False] 4 = Inr (NaN, NaN)"
proof -
  have h: "\<forall>i<length [0, 0, 1 :: int]. \<not> ([True, False, False] ! i \<and> [0, 0, 1 :: int] ! i = 1)"
    by (auto simp: less_Suc_eq)
  show ?thesis
    using extr_val_sd_empty_stratum [of "[True, False, False]" "[0, 0, 1]" "[2, 3, 7]" 4] h
    by simp
qed

text \<open>Over exact arithmetic the cost enters the value estimate linearly and does not
  enter the standard error.\<close>

lemma extr_val_sd_exact_cost:
  assumes "length a = length w_eval" and "length y_eval = length w_eval"
    and "\<exists>i<length w_eval. a ! i \<and> w_eval ! i = 1"
    and "\<exists>i<length w_eval. \<not> a ! i \<and> w_eval ! i = 0"
  shows "\<exists>v se. extr_val_sd y_eval w_eval a 0 = Inr (Fin v, se)
            \<and> extr_val_sd y_eval w_eval a cost
                = Inr (Fin (v - cost * (real (np_sum_bool a) / real (length a))), se)"
proof -
  have y1: "select_mask y_eval (c_1 w_eval a) \<noteq> []"
    using assms by (simp add: y_1_Nil_iff)
  have y0: "select_mask y_eval (c_0 w_eval a) \<noteq> []"
    using assms by (simp add: y_0_Nil_iff)
  have a: "a \<noteq> []" using assms by auto
  obtain m0 where m0: "mean_0 y_eval w_eval a = Fin m0"
    using mean_0_Fin [OF y0 a] by blast
  show ?thesis
    using assms(1,2)
    by (simp add: extr_val_sd_def mean_1_Fin [OF y1 a] m0 algebra_simps)
qed

text \<open>With the identity as rounding function the estimator in double arithmetic is the
  exact one; an empty stratum gives NaN for both results under every rounding.\<close>

lemma foldl_plus: "foldl (\<lambda>s x. s + x) (a :: real) xs = a + sum_list xs"
  by (induction xs arbitrary: a) simp_all

lemma fl_sum_id: "fl_sum id xs = sum_list xs"
  by (simp add: fl_sum_def foldl_plus)

lemma frnd_id [simp]: "frnd id v = v"
  by (cases v) (simp_all add: frnd_def)

lemma frnd_NaN [simp]: "frnd rnd NaN = NaN"
  by (simp add: frnd_def)

lemma np_mean_fl_id: "np_mean_fl id xs = np_mean xs"
  by (simp add: np_mean_fl_def np_mean_def fl_sum_id)

lemma np_var_fl_id: "np_var_fl id xs = np_var xs"
  by (simp add: np_var_fl_def np_var_def fl_sum_id Let_def power2_commute)

lemma np_mean_bool_fl_id: "np_mean_bool_fl id m = np_mean_bool m"
  by (simp add: np_mean_bool_fl_def np_mean_bool_def np_mean_fl_id)

lemma extr_val_sd_fl_id: "extr_val_sd_fl id y_eval w_eval a cost = extr_val_sd y_eval w_eval a cost"
  by (simp add: extr_val_sd_fl_def extr_val_sd_def val_est_fl_def var_sqr_fl_def
      mean_1_fl_def mean_0_fl_def var_1_fl_def var_0_fl_def
      mean_1_def mean_0_def var_1_def var_0_def
      np_mean_fl_id np_var_fl_id np_mean_bool_fl_id)

lemma extr_val_sd_fl_NaN:
  assumes "length a = length w" "length y = length w"
    and "select_mask y (c_1 w a) = [] \<or> select_mask y (c_0 w a) = []"
  shows "extr_val_sd_fl rnd y w a cost = Inr (NaN, NaN)"
  using assms
  by (auto simp: extr_val_sd_fl_def val_est_fl_def var_sqr_fl_def mean_1_fl_def mean_0_fl_def
      var_1_fl_def var_0_fl_def np_mean_fl_def np_var_fl_def)

lemma binade_numeral:
  "binade (numeral k) b m =
     (if 2 * b \<le> m then binade (pred_numeral k) (2 * b) m
      else if m < b then binade (pred_numeral k) (b / 2) m
      else b)"
  by (simp add: numeral_eq_Suc)

lemmas round_double_eval = round_double_def binade_numeral round_half_even_def Let_def

text \<open>
  Claim C10, as the code has it. On an evaluation set in which both strata are non-empty,
  the standard error returned for a cost is the one returned for cost 0, under every
  rounding of the operations. The value estimate is the one for cost 0 minus the cost
  times the fraction of units that the policy treats when no operation rounds; in double
  arithmetic the two differ by the rounding of the operations.
\<close>

theorem extr_val_sd_fl_cost:
  assumes "length a = length w_eval" and "length y_eval = length w_eval"
    and "\<exists>i<length w_eval. a ! i \<and> w_eval ! i = 1"
    and "\<exists>i<length w_eval. \<not> a ! i \<and> w_eval ! i = 0"
  shows "(\<exists>v v' se. extr_val_sd_fl rnd y_eval w_eval a 0 = Inr (v, se)
                   \<and> extr_val_sd_fl rnd y_eval w_eval a cost = Inr (v', se))
       \<and> (\<exists>v se. extr_val_sd_fl id y_eval w_eval a 0 = Inr (Fin v, se)
                \<and> extr_val_sd_fl id y_eval w_eval a cost
                    = Inr (Fin (v - cost * (real (np_sum_bool a) / real (length a))), se))"
proof
  show "\<exists>v v' se. extr_val_sd_fl rnd y_eval w_eval a 0 = Inr (v, se)
                   \<and> extr_val_sd_fl rnd y_eval w_eval a cost = Inr (v', se)"
    using assms(1,2) by (simp add: extr_val_sd_fl_def)
  show "\<exists>v se. extr_val_sd_fl id y_eval w_eval a 0 = Inr (Fin v, se)
                \<and> extr_val_sd_fl id y_eval w_eval a cost
                    = Inr (Fin (v - cost * (real (np_sum_bool a) / real (length a))), se)"
    unfolding extr_val_sd_fl_id using assms by (rule extr_val_sd_exact_cost)
qed

theorem extr_val_sd_fl_cost_witness:
  "(\<exists>v v' se. extr_val_sd_fl round_double [1, 3, 3, 5] [1, 0, 1, 0] [True, False, True, False] 0
                  = Inr (v, se)
              \<and> extr_val_sd_fl round_double [1, 3, 3, 5] [1, 0, 1, 0] [True, False, True, False] 1
                  = Inr (v', se))
   \<and> extr_val_sd_fl id [1, 3, 3, 5] [1, 0, 1, 0] [True, False, True, False] 0
        = Inr (Fin 3, Fin (1 / 2))
   \<and> extr_val_sd_fl id [1, 3, 3, 5] [1, 0, 1, 0] [True, False, True, False] 1
        = Inr (Fin (5 / 2), Fin (1 / 2))"
proof -
  let ?y = "[1, 3, 3, 5] :: real list" and ?w = "[1, 0, 1, 0] :: int list"
    and ?a = "[True, False, True, False]"
  have h1: "\<exists>i<length ?w. ?a ! i \<and> ?w ! i = 1"
    by (rule exI [of _ 0]) simp
  have h0: "\<exists>i<length ?w. \<not> ?a ! i \<and> ?w ! i = 0"
    by (rule exI [of _ 1]) simp
  have e0: "extr_val_sd_fl id ?y ?w ?a 0 = Inr (Fin 3, Fin (1 / 2))"
    unfolding extr_val_sd_fl_id
    by (simp add: extr_val_sd_unfold power2_eq_square real_sqrt_divide)
  from extr_val_sd_fl_cost [of ?a ?w ?y round_double 1, OF _ _ h1 h0]
  have r: "\<exists>v v' se. extr_val_sd_fl round_double ?y ?w ?a 0 = Inr (v, se)
                   \<and> extr_val_sd_fl round_double ?y ?w ?a 1 = Inr (v', se)"
    and "\<exists>v se. extr_val_sd_fl id ?y ?w ?a 0 = Inr (Fin v, se)
            \<and> extr_val_sd_fl id ?y ?w ?a 1
                = Inr (Fin (v - 1 * (real (np_sum_bool ?a) / real (length ?a))), se)"
    by simp_all
  then obtain v se where "extr_val_sd_fl id ?y ?w ?a 0 = Inr (Fin v, se)"
    and c: "extr_val_sd_fl id ?y ?w ?a 1
            = Inr (Fin (v - 1 * (real (np_sum_bool ?a) / real (length ?a))), se)"
    by blast
  with e0 have "v = 3" and "se = Fin (1 / 2)" by simp_all
  with c have "extr_val_sd_fl id ?y ?w ?a 1 = Inr (Fin (5 / 2), Fin (1 / 2))"
    by (simp add: np_sum_bool_def)
  with e0 r show ?thesis by blast
qed

text \<open>In doubles, for outcomes 9, 6 and -1, treatments 1, 1 and 0, a policy that treats
  the first two units and cost 2, the value estimate is \<open>3752999689475413 / 2 ^ 50\<close>
  (3.333333333333333); the estimate for cost 0 is 4.666666666666667 and the fraction
  treated 0.6666666666666666, and their combination is another number, whether it is
  computed exactly or in doubles (3.3333333333333335).\<close>

lemma val_est_fl_example:
  "val_est_fl round_double [9, 6, -1] [1, 1, 0] [True, True, False] 2
     = Fin (3752999689475413 / 2 ^ 50)"
  "val_est_fl round_double [9, 6, -1] [1, 1, 0] [True, True, False] 0
     = Fin (5254199565265579 / 2 ^ 50)"
  "np_mean_bool_fl round_double [True, True, False] = Fin (6004799503160661 / 2 ^ 53)"
  by (simp_all add: val_est_fl_def mean_1_fl_def mean_0_fl_def np_mean_bool_fl_def
      np_mean_fl_def fl_sum_def frnd_def c_1_def c_0_def logical_not_def select_mask_def
      round_double_eval)

theorem extr_val_sd_fl_cost_counterexample:
  "map_sum id fst (extr_val_sd_fl round_double [9, 6, -1] [1, 1, 0] [True, True, False] 2)
     = Inr (Fin (3752999689475413 / 2 ^ 50))
   \<and> map_sum id fst (extr_val_sd_fl round_double [9, 6, -1] [1, 1, 0] [True, True, False] 0)
     = Inr (Fin (5254199565265579 / 2 ^ 50))
   \<and> np_mean_bool_fl round_double [True, True, False] = Fin (6004799503160661 / 2 ^ 53)
   \<and> (3752999689475413 / 2 ^ 50 :: real)
       \<noteq> 5254199565265579 / 2 ^ 50 - 2 * (6004799503160661 / 2 ^ 53)
   \<and> round_double (5254199565265579 / 2 ^ 50 - round_double (2 * (6004799503160661 / 2 ^ 53)))
       = 3752999689475414 / 2 ^ 50"
proof -
  have "round_double (5254199565265579 / 2 ^ 50 - round_double (2 * (6004799503160661 / 2 ^ 53)))
       = 3752999689475414 / 2 ^ 50"
    by (simp add: round_double_eval)
  then show ?thesis
    by (simp add: extr_val_sd_fl_def val_est_fl_example)
qed

text \<open>
  Claim C3, as the code has it. For the policy that treats everyone, with cost 0 and at
  least one treated unit in the evaluation set, the treated term \<open>mean_1\<close> is the mean
  outcome among the treated units, but no unit is left in the control stratum: the
  control term \<open>mean_0\<close> is NaN (the mean of an empty selection, times 0), and so are the
  value estimate and the standard error that the call returns.
\<close>

theorem extr_val_sd_treat_everyone:
  assumes "length y_eval = length w_eval" and "\<exists>i<length w_eval. w_eval ! i = 1"
  shows "mean_1 y_eval w_eval (replicate (length w_eval) True) 0
           = np_mean (treated_outcomes y_eval w_eval)
       \<and> mean_0 y_eval w_eval (replicate (length w_eval) True) = NaN
       \<and> extr_val_sd y_eval w_eval (replicate (length w_eval) True) 0 = Inr (NaN, NaN)"
proof -
  let ?a = "replicate (length w_eval) True"
  have y0: "select_mask y_eval (c_0 w_eval ?a) = []"
    by (simp add: c_0_all_True select_mask_all_False)
  have ne: "w_eval \<noteq> []" using assms(2) by auto
  then have "np_mean_bool ?a = Fin 1"
    by (simp add: np_mean_bool_def np_mean_def sum_list_replicate)
  then have m1: "mean_1 y_eval w_eval ?a 0
      = np_mean (treated_outcomes y_eval w_eval)"
    by (cases "np_mean (select_mask y_eval (map (\<lambda>v. v = 1) w_eval))")
       (simp_all add: mean_1_def c_1_all_True inf_of_sign_def treated_outcomes_def)
  show ?thesis
    using m1 empty_0_NaN(1) [OF y0] extr_val_sd_NaN [of ?a w_eval y_eval 0] y0 assms(1)
    by simp
qed

theorem extr_val_sd_treat_everyone_witness:
  "mean_1 [4, 6, 1] [1, 1, 0] [True, True, True] 0 = Fin 5
   \<and> np_mean (treated_outcomes [4, 6, 1] [1, 1, 0]) = Fin 5
   \<and> mean_0 [4, 6, 1] [1, 1, 0] [True, True, True] = NaN
   \<and> extr_val_sd [4, 6, 1] [1, 1, 0] [True, True, True] 0 = Inr (NaN, NaN)"
proof -
  have h: "\<exists>i<length [1, 1, 0 :: int]. [1, 1, 0 :: int] ! i = 1"
    by (rule exI [of _ 0]) simp
  have t: "np_mean (treated_outcomes [4, 6, 1] [1, 1, 0]) = Fin 5"
    by (simp add: treated_outcomes_def select_mask_def np_mean_def)
  show ?thesis
    using extr_val_sd_treat_everyone [of "[4, 6, 1]" "[1, 1, 0]", OF _ h] t
    by (simp add: numeral_3_eq_3)
qed

text \<open>The value estimate for the treat-everyone policy is NaN where the mean outcome
  among the treated units is 5.\<close>

theorem extr_val_sd_treat_everyone_counterexample:
  "extr_val_sd [4, 6] [1, 1] [True, True] 0 = Inr (NaN, NaN)
   \<and> np_mean (treated_outcomes [4, 6] [1, 1]) = Fin 5"
  by (simp add: extr_val_sd_unfold treated_outcomes_def)


section \<open>Properties of the AIPW value estimate\<close>

text \<open>Cells 7, 11 and 23: the combined score of a unit is
  \<open>pi * gamma_1 + (1 - pi) * gamma_0\<close>, and for the policy that treats no one the value
  estimate is the mean of the control-arm scores.\<close>

lemma gamma_hat_pi_nth:
  assumes "length pi_hat = length g1" and "length g1 = length g0" and "i < length g0"
  shows "\<exists>g. gamma_hat_pi pi_hat g1 g0 = Inr g \<and> length g = length g0
           \<and> g ! i = of_bool (pi_hat ! i) * g1 ! i + (1 - of_bool (pi_hat ! i)) * g0 ! i"
  using assms by (simp add: gamma_hat_pi_def)

lemma gamma_hat_pi_treat_none:
  assumes "length g1 = length g0"
  shows "gamma_hat_pi (replicate (length g0) False) g1 g0 = Inr g0"
  using assms by (simp add: gamma_hat_pi_def list_eq_iff_nth_eq)

lemma aipw_value_treat_none:
  assumes "length g1 = length g0"
  shows "aipw_value (replicate (length g0) False) g1 g0 = Inr (value_and_stderr g0)"
    and "fst (value_and_stderr g0) = np_mean g0"
  using assms by (simp_all add: aipw_value_def gamma_hat_pi_treat_none value_and_stderr_def)

text \<open>
  Claim C1 at cell 18. There the policy vector is added to the treated-arm score instead
  of multiplying it: for one unit with scores 1 and 2 that the policy does not treat, the
  combined score is \<open>0 + 1 + 1 * 2 = 3\<close> and the value estimate is 3, where the formula
  of cells 7, 11 and 23 gives the control-arm score 2.
\<close>

theorem aipw_value_18_treat_none:
  "gamma_hat_pi_18 [False] [1] [2] = Inr [3]
   \<and> aipw_value_18 [False] [1] [2] = Inr (Fin 3, Fin 0)
   \<and> aipw_value [False] [1] [2] = Inr (Fin 2, Fin 0)
   \<and> np_mean [2] = Fin 2"
  by (simp add: aipw_value_18_def gamma_hat_pi_18_def aipw_value_def gamma_hat_pi_def
      value_and_stderr_def np_mean_def np_std_def np_var_def)

section \<open>Properties of the doubly-robust score calculator\<close>

lemma length_units [simp]: "length (units residuals tau_hat y w) = length y"
  by (simp add: units_def)

text \<open>The calculator divides by a propensity estimate of 0: a treated unit whose
  treatment residual is 1 gets the treated-arm score infinity or NaN.\<close>

theorem double_robust_score_unguarded_counterexample:
  "map e_hat (units ([1, 0], [1, 1]) [0, 0] [1, 1] [1, 1]) = [0, 0]
   \<and> double_robust_score ([1, 0], [1, 1]) [0, 0] [1, 1] [1, 1] = Inr ([PInf, NaN], [Fin 0, Fin 1])"
  by (simp add: double_robust_score_def units_def upt_rec gamma_hat_1_def gamma_hat_0_def
      mu_hat_1_def mu_hat_0_def e_hat_def y_hat_def inf_of_sign_def)

lemma gamma_hat_1_Fin:
  "e_hat u \<noteq> 0 \<Longrightarrow>
   gamma_hat_1 u = Fin (mu_hat_1 u + real_of_int (w_obs u) / e_hat u * (y_obs u - mu_hat_1 u))"
  by (simp add: gamma_hat_1_def)

lemma gamma_hat_0_Fin:
  "e_hat u \<noteq> 1 \<Longrightarrow>
   gamma_hat_0 u = Fin (mu_hat_0 u + (1 - real_of_int (w_obs u)) / (1 - e_hat u) * (y_obs u - mu_hat_0 u))"
  by (simp add: gamma_hat_0_def)

text \<open>
  Claim C4, as the code has it. The calculator neither asserts nor clips: it divides by
  \<open>e_hat = w - residuals[1]\<close> and by \<open>1 - e_hat\<close> as they come. When the inputs
  keep every \<open>e_hat\<close> strictly between \<open>eps\<close> and \<open>1 - eps\<close> for some positive
  \<open>eps\<close>, no division by zero occurs and both scores of every unit are the finite
  numbers of the AIPW formulas.
\<close>

theorem double_robust_score_overlap:
  assumes "length (fst residuals) = length y" and "length (snd residuals) = length y"
    and "length tau_hat = length y" and "length w = length y"
    and "0 < eps"
    and "\<forall>u \<in> set (units residuals tau_hat y w). eps < e_hat u \<and> e_hat u < 1 - eps"
  shows "double_robust_score residuals tau_hat y w
           = Inr (map (\<lambda>u. Fin (aipw_1 u)) (units residuals tau_hat y w),
                  map (\<lambda>u. Fin (aipw_0 u)) (units residuals tau_hat y w))"
proof -
  have "gamma_hat_1 u = Fin (aipw_1 u) \<and> gamma_hat_0 u = Fin (aipw_0 u)"
    if "u \<in> set (units residuals tau_hat y w)" for u
  proof -
    from that assms(5,6) have "e_hat u \<noteq> 0" and "e_hat u \<noteq> 1" by fastforce+
    then show ?thesis by (simp add: gamma_hat_1_Fin gamma_hat_0_Fin aipw_1_def aipw_0_def)
  qed
  then show ?thesis
    using assms(1-4) by (simp add: double_robust_score_def Let_def cong: map_cong)
qed

theorem double_robust_score_overlap_witness:
  "double_robust_score ([1, 0], [1 / 2, - 1 / 2]) [2, 4] [3, 1] [1, 0]
     = Inr ([Fin 3, Fin 3], [Fin 1, Fin 3])"
proof -
  have u: "units ([1, 0], [1 / 2, - 1 / 2]) [2, 4] [3, 1] [1, 0]
      = [\<lparr>res_y = 1, res_w = 1 / 2, tau = 2, y_obs = 3, w_obs = 1\<rparr>,
         \<lparr>res_y = 0, res_w = - 1 / 2, tau = 4, y_obs = 1, w_obs = 0\<rparr>]"
    by (simp add: units_def upt_rec)
  have h: "\<forall>u \<in> set (units ([1, 0], [1 / 2, - 1 / 2]) [2, 4] [3, 1] [1, 0]).
             1 / 4 < e_hat u \<and> e_hat u < 1 - 1 / 4"
    unfolding u by (simp add: e_hat_def)
  show ?thesis
    using double_robust_score_overlap [of "([1, 0], [1 / 2, - 1 / 2])" "[3, 1]" "[2, 4]" "[1, 0]" "1 / 4", OF _ _ _ _ _ h]
    unfolding u
    by (simp add: aipw_1_def aipw_0_def mu_hat_1_def mu_hat_0_def e_hat_def y_hat_def)
qed

section \<open>Properties of the rankings and the cost curves\<close>

lemma sort_key_neg_rev:
  fixes f :: "nat \<Rightarrow> real"
  assumes "inj_on f (set xs)"
  shows "sort_key f xs = rev (sort_key (\<lambda>i. - f i) xs)"
proof (rule sort_key_inj_key_eq)
  let ?l = "sort_key (\<lambda>i. - f i) xs"
  show "mset xs = mset (rev ?l)" by simp
  show "inj_on f (set xs)" by fact
  have "sorted (map (\<lambda>i. - f i) ?l)" by (rule sorted_sort_key)
  then have "sorted_wrt (\<lambda>a b. f b \<le> f a) ?l"
    by (simp add: sorted_wrt_map)
  then show "sorted (map f (rev ?l))"
    by (simp add: sorted_wrt_map sorted_wrt_rev)
qed

lemma insort_key_cong_set:
  "f x = g x \<Longrightarrow> (\<And>y. y \<in> set ys \<Longrightarrow> f y = g y) \<Longrightarrow> insort_key f x ys = insort_key g x ys"
  by (induction ys) simp_all

lemma sort_key_cong_set:
  "(\<And>x. x \<in> set xs \<Longrightarrow> f x = g x) \<Longrightarrow> sort_key f xs = sort_key g xs"
proof (induction xs)
  case Nil then show ?case by simp
next
  case (Cons x xs)
  then have "sort_key f xs = sort_key g xs" by simp
  moreover have "insort_key f x (sort_key g xs) = insort_key g x (sort_key g xs)"
    using Cons.prems by (intro insort_key_cong_set) simp_all
  ultimately show ?case by simp
qed

lemma argsort_neg:
  fixes xs :: "real list"
  shows "argsort (map uminus xs) = sort_key (\<lambda>i. - (xs ! i)) [0..<length xs]"
  unfolding argsort_def length_map by (rule sort_key_cong_set) simp

lemma length_argsort [simp]: "length (argsort xs) = length xs"
  by (simp add: argsort_def)

lemma set_argsort [simp]: "set (argsort xs) = {0..<length xs}"
  by (simp add: argsort_def)

lemma mset_argsort: "mset (argsort xs) = mset [0..<length xs]"
  by (simp add: argsort_def)

lemma length_cumsum_from: "length (cumsum_from acc xs) = length xs"
  by (induction xs arbitrary: acc) simp_all

lemma length_cumsum [simp]: "length (cumsum xs) = length xs"
  by (simp add: cumsum_def length_cumsum_from)

lemma sorted_filter_takeWhile:
  fixes g :: "'a \<Rightarrow> real"
  assumes "sorted (map g r)"
  shows "filter (\<lambda>i. g i < c) r = takeWhile (\<lambda>i. g i < c) r"
  using assms
proof (induction r)
  case Nil then show ?case by simp
next
  case (Cons x r)
  show ?case
  proof (cases "g x < c")
    case True with Cons show ?thesis by simp
  next
    case False
    with Cons.prems have "\<forall>i\<in>set r. \<not> g i < c" by fastforce
    then have "filter (\<lambda>i. g i < c) r = []" by (simp add: filter_empty_conv)
    with False show ?thesis by simp
  qed
qed

lemma rank_ignore_cost_sorted:
  "sorted (map (\<lambda>i. - (tau_hat ! i)) (rank_ignore_cost tau_hat))"
  unfolding rank_ignore_cost_def argsort_neg by (rule sorted_sort_key)

lemma rank_ignore_cost_positive_filter:
  "take (length (filter (\<lambda>t. 0 < t) tau_hat)) (rank_ignore_cost tau_hat)
     = filter (\<lambda>i. 0 < tau_hat ! i) (rank_ignore_cost tau_hat)"
proof -
  let ?r = "rank_ignore_cost tau_hat" and ?P = "\<lambda>i. 0 < tau_hat ! i"
  have r: "mset ?r = mset [0..<length tau_hat]"
    by (simp add: rank_ignore_cost_def mset_argsort)
  have "filter ?P ?r = filter (\<lambda>i. - (tau_hat ! i) < 0) ?r" by simp
  also have "\<dots> = takeWhile (\<lambda>i. - (tau_hat ! i) < 0) ?r"
    using rank_ignore_cost_sorted by (rule sorted_filter_takeWhile)
  finally have ft: "filter ?P ?r = takeWhile ?P ?r" by simp
  have "length (filter ?P ?r) = size (filter_mset ?P (mset ?r))"
    by (metis mset_filter size_mset)
  also have "\<dots> = length (filter ?P [0..<length tau_hat])"
    unfolding r by (metis mset_filter size_mset)
  also have "\<dots> = card ({i. ?P i} \<inter> set [0..<length tau_hat])"
    by (rule distinct_length_filter) simp
  also have "{i. ?P i} \<inter> set [0..<length tau_hat] = {i. i < length tau_hat \<and> ?P i}"
    by auto
  also have "card \<dots> = length (filter (\<lambda>t. 0 < t) tau_hat)"
    by (simp add: length_filter_conv_card)
  finally have "length (filter (\<lambda>t. 0 < t) tau_hat) = length (takeWhile ?P ?r)"
    using ft by simp
  then show ?thesis
    using ft by (simp flip: takeWhile_eq_take)
qed

text \<open>
  Claim C2. The ranking \<open>rank_ratio\<close> orders the units by decreasing cost estimate
  alone; the benefit estimate does not enter it. With benefit estimates 3 and 1 and cost
  estimates 1 and 2 the ratios are 3 and 1/2, so unit 0 comes first in decreasing order of
  the ratio (as \<open>rank_iv\<close> applied to the ratios has it), while \<open>rank_ratio\<close> puts
  unit 1 first.
\<close>

theorem rank_ratio_ignores_benefit:
  "rank_ratio [1, 2] = [1, 0]
   \<and> benefit_cost_ratio [3, 1] [1, 2] = [3, 1 / 2]
   \<and> rank_iv (benefit_cost_ratio [3, 1] [1, 2]) = [0, 1]"
  by (simp add: rank_ratio_def rank_iv_def benefit_cost_ratio_def argsort_def upt_rec)

text \<open>
  Claim C7, as the code has it. For effect estimates that are pairwise different, the
  ranking computed from the negated estimates is the reverse of the ranking computed from
  the estimates.
\<close>

theorem rank_reversal:
  assumes "distinct tau_hat"
  shows "rank_ignore_cost (map uminus tau_hat) = rev (rank_ignore_cost tau_hat)"
proof -
  have inj: "inj_on (\<lambda>i. tau_hat ! i) (set [0..<length tau_hat])"
    using assms by (auto simp: inj_on_def nth_eq_iff_index_eq)
  have "rank_ignore_cost (map uminus tau_hat) = argsort tau_hat"
    by (simp add: rank_ignore_cost_def o_def)
  also have "\<dots> = rev (sort_key (\<lambda>i. - (tau_hat ! i)) [0..<length tau_hat])"
    unfolding argsort_def using inj by (rule sort_key_neg_rev)
  also have "\<dots> = rev (rank_ignore_cost tau_hat)"
    by (simp add: rank_ignore_cost_def argsort_neg)
  finally show ?thesis .
qed

theorem rank_reversal_witness:
  "rank_ignore_cost (map uminus [3, 1, 2]) = [1, 2, 0]
   \<and> rev (rank_ignore_cost [3, 1, 2]) = [1, 2, 0]"
proof -
  have "rev (rank_ignore_cost [3, 1, 2]) = [1, 2, 0]"
    by (simp add: rank_ignore_cost_def argsort_def upt_rec)
  then show ?thesis
    using rank_reversal [of "[3, 1, 2]"] by simp
qed

text \<open>With two equal estimates both rankings keep the original order of the two units,
  so the second is not the reverse of the first.\<close>

theorem rank_reversal_ties_counterexample:
  "rank_ignore_cost (map uminus [1, 1]) = [0, 1] \<and> rev (rank_ignore_cost [1, 1]) = [1, 0]"
  by (simp add: rank_ignore_cost_def argsort_def upt_rec)

text \<open>
  Claim C6, as the code has it. The notebook has no budget and no stopping rule: a cost
  curve has one point for every unit of the evaluation set. In the ranking
  \<open>rank_ignore_cost\<close> the units with a positive effect estimate come first: they are
  exactly its first \<open>m\<close> entries, where \<open>m\<close> is the number of positive estimates.
\<close>

theorem rank_ignore_cost_prefix:
  assumes "length treatment_ipw = length tau_hat"
  shows "(\<exists>curve. treatment_value_ignore_cost treatment_ipw tau_hat = Inr curve
                 \<and> length curve = length tau_hat)
       \<and> set (take (length (filter (\<lambda>t. 0 < t) tau_hat)) (rank_ignore_cost tau_hat))
           = {i. i < length tau_hat \<and> 0 < tau_hat ! i}"
proof -
  have "set (rank_ignore_cost tau_hat) = {0..<length tau_hat}"
    by (simp add: rank_ignore_cost_def)
  then have "set (filter (\<lambda>i. 0 < tau_hat ! i) (rank_ignore_cost tau_hat))
              = {i. i < length tau_hat \<and> 0 < tau_hat ! i}"
    by auto
  then have prefix: "set (take (length (filter (\<lambda>t. 0 < t) tau_hat)) (rank_ignore_cost tau_hat))
           = {i. i < length tau_hat \<and> 0 < tau_hat ! i}"
    by (simp only: rank_ignore_cost_positive_filter)
  have "length (rank_ignore_cost tau_hat) = length tau_hat"
    by (simp add: rank_ignore_cost_def)
  then have "\<exists>curve. treatment_value_ignore_cost treatment_ipw tau_hat = Inr curve
                 \<and> length curve = length tau_hat"
    using assms
    by (simp add: treatment_value_ignore_cost_def cost_curve_def sort_values_rows_def)
  with prefix show ?thesis by blast
qed


theorem rank_ignore_cost_prefix_witness:
  "treatment_value_ignore_cost [2, 4, 6] [-1, 3, 2] = Inr [Fin (1 / 2), Fin (2 / 3), Fin 1]
   \<and> rank_ignore_cost [-1, 3, 2] = [1, 2, 0]
   \<and> set (take 2 (rank_ignore_cost [-1, 3, 2])) = {1, 2}"
proof -
  have c: "treatment_value_ignore_cost [2, 4, 6] [-1, 3, 2] = Inr [Fin (1 / 2), Fin (2 / 3), Fin 1]"
    by (simp add: treatment_value_ignore_cost_def cost_curve_def rank_ignore_cost_def
        sort_values_rows_def argsort_def upt_rec cumsum_def)
  have r: "rank_ignore_cost [-1, 3, 2] = [1, 2, 0]"
    by (simp add: rank_ignore_cost_def argsort_def upt_rec)
  have "set (take (length (filter (\<lambda>t. 0 < t) [-1, 3, 2 :: real])) (rank_ignore_cost [-1, 3, 2]))
          = {i. i < length [-1, 3, 2 :: real] \<and> 0 < [-1, 3, 2 :: real] ! i}"
    using rank_ignore_cost_prefix [of "[2, 4, 6]" "[-1, 3, 2]"] by simp
  then have "set (take 2 (rank_ignore_cost [-1, 3, 2])) = {1, 2}"
    using r by simp
  with c r show ?thesis by simp
qed

text \<open>With effect estimates 1 and -1 the curve has two points, and its second point
  adds the unit whose estimate is not positive.\<close>

theorem rank_ignore_cost_no_stop_counterexample:
  "treatment_value_ignore_cost [2, 4] [1, -1] = Inr [Fin (1 / 3), Fin 1]
   \<and> sort_values_rows (rank_ignore_cost [1, -1]) = [0, 1]
   \<and> \<not> 0 < [1, -1 :: real] ! 1"
  by (simp add: treatment_value_ignore_cost_def cost_curve_def rank_ignore_cost_def
      sort_values_rows_def argsort_def upt_rec cumsum_def)

text \<open>The rows of a curve are taken in the order that \<open>sort_values\<close> gives to the
  entries of the ranking column, which is not always the order of the ranking.\<close>

lemma sort_values_rows_example:
  "rank_ignore_cost [1, 3, 2] = [1, 2, 0] \<and> sort_values_rows (rank_ignore_cost [1, 3, 2]) = [2, 0, 1]"
  by (simp add: rank_ignore_cost_def sort_values_rows_def argsort_def upt_rec)

section \<open>Properties of the pipelines\<close>





end
